theory Spec2Isabelle
  imports Main
begin

section \<open>JavaScript values\<close>

text \<open>
  Request bodies, socket message arguments, decoded token payloads and emitted payloads
  are JSON-shaped JavaScript values. An object is an association list; the property
  \<open>k\<close> of an object is its first binding of \<open>k\<close>. Numbers are restricted to integers
  (the source does no arithmetic on them; it only converts them to strings).
\<close>

datatype jsval =
    JUndefined
  | JNull
  | JBool bool
  | JNum int
  | JStr string
  | JArr "jsval list"
  | JObj "(string \<times> jsval) list"

datatype js_error = TypeError

text \<open>JavaScript truthiness, as used by \<open>!x\<close>, \<open>if (x)\<close>, \<open>a || b\<close> and \<open>a && b\<close>.\<close>

fun truthy :: "jsval \<Rightarrow> bool" where
  "truthy JUndefined = False"
| "truthy JNull = False"
| "truthy (JBool b) = b"
| "truthy (JNum n) = (n \<noteq> 0)"
| "truthy (JStr s) = (s \<noteq> [])"
| "truthy (JArr xs) = True"
| "truthy (JObj kvs) = True"

text \<open>\<open>a || b\<close>: the left operand when it is truthy, the right one otherwise.\<close>

definition js_or :: "jsval \<Rightarrow> jsval \<Rightarrow> jsval" where
  "js_or a b = (if truthy a then a else b)"

text \<open>
  Reading a property that the source names (\<open>const { tripId } = req.body\<close>,
  \<open>decoded.user_id\<close>). On \<open>undefined\<close> and \<open>null\<close> the read throws a TypeError; on any
  other value that is not an object holding the key it yields \<open>undefined\<close> (none of the
  property names the source reads this way is defined on a built-in prototype).
\<close>

definition nullish :: "jsval \<Rightarrow> bool" where
  "nullish v = (v = JUndefined \<or> v = JNull)"

fun get_prop :: "jsval \<Rightarrow> string \<Rightarrow> jsval" where
  "get_prop (JObj kvs) k = (case map_of kvs k of Some v \<Rightarrow> v | None \<Rightarrow> JUndefined)"
| "get_prop v k = JUndefined"

text \<open>
  Decimal rendering of an integer, as \<open>String(n)\<close> gives it for the integers below
  \<open>10^21\<close> in magnitude.
\<close>

definition digit_char :: "nat \<Rightarrow> char" where
  "digit_char d = ''0123456789'' ! (d mod 10)"

function digits :: "nat \<Rightarrow> string" where
  "digits n = (if n < 10 then [digit_char n] else digits (n div 10) @ [digit_char (n mod 10)])"
  by pat_completeness auto
termination
  by (relation "measure (\<lambda>n. n)") auto

definition show_int :: "int \<Rightarrow> string" where
  "show_int n = (if n < 0 then CHR ''-'' # digits (nat (- n)) else digits (nat n))"

text \<open>
  \<open>ToString\<close>, as a template literal \<open>`${v}`\<close> applies it. An array is joined with commas,
  \<open>undefined\<close> and \<open>null\<close> elements rendering as the empty string. A plain object renders as
  \<open>[object Object]\<close>, unless it has an own property \<open>toString\<close>: a JSON value is never
  callable, \<open>Object.prototype.valueOf\<close> returns the object itself, and the conversion
  throws a TypeError.
\<close>

fun js_toString :: "jsval \<Rightarrow> js_error + string"
and join_elems :: "jsval list \<Rightarrow> js_error + string"
where
  "js_toString JUndefined = Inr ''undefined''"
| "js_toString JNull = Inr ''null''"
| "js_toString (JBool b) = Inr (if b then ''true'' else ''false'')"
| "js_toString (JNum n) = Inr (show_int n)"
| "js_toString (JStr s) = Inr s"
| "js_toString (JArr xs) = join_elems xs"
| "js_toString (JObj kvs) =
     (if ''toString'' \<in> fst ` set kvs then Inl TypeError else Inr ''[object Object]'')"
| "join_elems [] = Inr []"
| "join_elems (x # xs) =
     (case (if x = JUndefined \<or> x = JNull then Inr [] else js_toString x) of
        Inl e \<Rightarrow> Inl e
      | Inr s \<Rightarrow>
          (if xs = [] then Inr s
           else (case join_elems xs of Inl e \<Rightarrow> Inl e | Inr r \<Rightarrow> Inr (s @ '','' @ r))))"

text \<open>A template literal: literal chunks and substitutions, converted left to right.\<close>

datatype part = Lit string | Sub jsval

fun template :: "part list \<Rightarrow> js_error + string" where
  "template [] = Inr []"
| "template (Lit s # ps) =
     (case template ps of Inl e \<Rightarrow> Inl e | Inr r \<Rightarrow> Inr (s @ r))"
| "template (Sub v # ps) =
     (case js_toString v of
        Inl e \<Rightarrow> Inl e
      | Inr s \<Rightarrow> (case template ps of Inl e \<Rightarrow> Inl e | Inr r \<Rightarrow> Inr (s @ r)))"

text \<open>
  \<open>s.replace(pat, rep)\<close> with a string pattern: the first occurrence of \<open>pat\<close> is
  replaced, and a string without the pattern is returned as it is.
\<close>

fun replace_first :: "string \<Rightarrow> string \<Rightarrow> string \<Rightarrow> string" where
  "replace_first pat rep [] = (if pat = [] then rep else [])"
| "replace_first pat rep (c # cs) =
     (if take (length pat) (c # cs) = pat then rep @ drop (length pat) (c # cs)
      else c # replace_first pat rep cs)"

section \<open>HTTP responses and configuration\<close>

record response =
  status :: nat
  json :: jsval

text \<open>The environment variables the source reads; an unset variable is \<open>None\<close>.\<close>

record env =
  env_LARAVEL_API_KEY :: "string option"
  env_JWT_SECRET :: "string option"

text \<open>A middleware either answers the request itself or calls \<open>next()\<close>.\<close>

datatype mw_result = Respond response | Next

datatype logged = LogError string | LogWarn string | LogInfo string

record request =
  x_api_key :: "string option"
  body :: jsval

section \<open>Backend authentication middleware\<close>

text \<open>
  \<open>validateBackendAuth\<close>: the presented key is checked for presence first, then the
  configured key, then equality. A header value is a string; \<open>!apiKey\<close> holds for an
  absent header and for the empty string. The result carries what the logger received.
  Nothing inside the \<open>try\<close> can throw (two property reads, comparisons, logger calls
  and \<open>next()\<close>), so the \<open>catch\<close> branch is not represented.
\<close>

definition str_falsy :: "string option \<Rightarrow> bool" where
  "str_falsy v = (case v of None \<Rightarrow> True | Some s \<Rightarrow> s = [])"

definition validateBackendAuth :: "env \<Rightarrow> request \<Rightarrow> logged list \<times> mw_result" where
  "validateBackendAuth e req =
     (let apiKey = x_api_key req; expectedApiKey = env_LARAVEL_API_KEY e in
      if str_falsy apiKey then
        ([], Respond \<lparr>status = 401, json = JObj [(''error'', JStr ''API key required'')]\<rparr>)
      else if str_falsy expectedApiKey then
        ([LogError ''LARAVEL_API_KEY not configured''],
         Respond \<lparr>status = 500, json = JObj [(''error'', JStr ''Server configuration error'')]\<rparr>)
      else if apiKey \<noteq> expectedApiKey then
        ([LogWarn ''Invalid API key attempt''],
         Respond \<lparr>status = 401, json = JObj [(''error'', JStr ''Invalid API key'')]\<rparr>)
      else ([], Next))"

section \<open>Socket middleware: token validation\<close>

text \<open>
  The per-connection fields the source attaches to a socket, and the rooms it has
  joined. A field that was never assigned is \<open>undefined\<close>.
\<close>

record socket =
  sid :: string
  rooms :: "string set"
  userId :: jsval
  authenticated :: jsval
  userType :: jsval
  userEmail :: jsval

text \<open>What a client supplies when it connects.\<close>

record handshake =
  auth_token :: jsval
  authorization :: "string option"

text \<open>
  \<open>jwt.verify(token, secret, callback)\<close> belongs to a library: it is a parameter of the
  model. It hands the callback an error or the decoded payload, or throws.
\<close>

datatype jwt_outcome = JwtErr string | JwtDecoded jsval | JwtThrow

datatype next_result = NextOk | NextErr string

text \<open>
  \<open>socket.handshake.auth.token || socket.handshake.headers.authorization?.replace('Bearer ', '')\<close>
\<close>

definition handshake_token :: "handshake \<Rightarrow> jsval" where
  "handshake_token hs =
     js_or (auth_token hs)
       (case authorization hs of
          None \<Rightarrow> JUndefined
        | Some h \<Rightarrow> JStr (replace_first ''Bearer '' [] h))"

definition validateSocketAuth ::
  "(jsval \<Rightarrow> string \<Rightarrow> jwt_outcome) \<Rightarrow> env \<Rightarrow> handshake \<Rightarrow> socket
     \<Rightarrow> socket \<times> logged list \<times> next_result" where
  "validateSocketAuth jwt_verify e hs sock =
     (let token = handshake_token hs in
      if \<not> truthy token then (sock, [], NextErr ''Authentication token required'')
      else
        (case env_JWT_SECRET e of
           None \<Rightarrow>
             (sock, [LogError ''JWT_SECRET not configured''], NextErr ''Server configuration error'')
         | Some jwtSecret \<Rightarrow>
             if jwtSecret = [] then
               (sock, [LogError ''JWT_SECRET not configured''],
                NextErr ''Server configuration error'')
             else
               (case jwt_verify token jwtSecret of
                  JwtErr m \<Rightarrow> (sock, [LogWarn ''Invalid JWT token''], NextErr ''Invalid token'')
                | JwtThrow \<Rightarrow>
                    (sock, [LogError ''Socket auth error:''], NextErr ''Authentication error'')
                | JwtDecoded decoded \<Rightarrow>
                    if nullish decoded then
                      (sock, [LogError ''Socket auth error:''], NextErr ''Authentication error'')
                    else
                      (sock\<lparr>userId :=
                              js_or (get_prop decoded ''user_id'') (get_prop decoded ''id''),
                            userType := js_or (get_prop decoded ''user_type'') (JStr ''rider''),
                            userEmail := get_prop decoded ''email''\<rparr>,
                       [LogInfo ''Socket authenticated''], NextOk))))"

section \<open>The server of app.js\<close>

subsection \<open>Configuration and the API-key middleware\<close>

text \<open>\<open>process.env.LARAVEL_API_KEY || 'HKeGw>L/v9-3W4/'\<close>\<close>

definition LARAVEL_API_KEY :: "env \<Rightarrow> string" where
  "LARAVEL_API_KEY e =
     (case env_LARAVEL_API_KEY e of
        None \<Rightarrow> ''HKeGw>L/v9-3W4/''
      | Some k \<Rightarrow> if k = [] then ''HKeGw>L/v9-3W4/'' else k)"

definition validateApiKey :: "env \<Rightarrow> request \<Rightarrow> mw_result" where
  "validateApiKey e req =
     (let apiKey = x_api_key req in
      if str_falsy apiKey \<or> apiKey \<noteq> Some (LARAVEL_API_KEY e) then
        Respond \<lparr>status = 401, json = JObj [(''error'', JStr ''Invalid API key'')]\<rparr>
      else Next)"

subsection \<open>Emitting to rooms\<close>

text \<open>
  \<open>io\<close> is \<open>None\<close> when Socket.IO failed to initialise and the connected sockets
  otherwise. A handler's run is the list of messages it handed to sockets, in order,
  and either the exception it threw or its value. Log output is not recorded, but the
  evaluation of a log message is: it can throw.
\<close>

record delivery =
  to_socket :: string
  event :: string
  payload :: jsval

type_synonym 'a comp = "delivery list \<times> (js_error + 'a)"

definition ret :: "'a \<Rightarrow> 'a comp" where
  "ret x = ([], Inr x)"

definition and_then :: "'a comp \<Rightarrow> ('a \<Rightarrow> 'b comp) \<Rightarrow> 'b comp" where
  "and_then m f =
     (case m of
        (tr, Inl e) \<Rightarrow> (tr, Inl e)
      | (tr, Inr x) \<Rightarrow> (case f x of (tr', r) \<Rightarrow> (tr @ tr', r)))"

definition seq :: "unit comp \<Rightarrow> 'b comp \<Rightarrow> 'b comp" where
  "seq m n = and_then m (\<lambda>_. n)"

text \<open>The sockets that are in a room, in connection order.\<close>

definition members :: "socket list \<Rightarrow> string \<Rightarrow> socket list" where
  "members socks room = filter (\<lambda>s. room \<in> rooms s) socks"

text \<open>\<open>io.to(room).emit(ev, data)\<close>, the room name being a template literal.\<close>

definition io_to_emit :: "socket list \<Rightarrow> part list \<Rightarrow> string \<Rightarrow> jsval \<Rightarrow> unit comp" where
  "io_to_emit socks room ev data =
     (case template room of
        Inl e \<Rightarrow> ([], Inl e)
      | Inr r \<Rightarrow>
          (map (\<lambda>s. \<lparr>to_socket = sid s, event = ev, payload = data\<rparr>) (members socks r),
           Inr ()))"

text \<open>\<open>log(`...`)\<close>: the message is evaluated, its text is not recorded.\<close>

definition log :: "part list \<Rightarrow> unit comp" where
  "log msg = (case template msg of Inl e \<Rightarrow> ([], Inl e) | Inr m \<Rightarrow> ([], Inr ()))"

text \<open>\<open>res.json(v)\<close> answers with status 200.\<close>

definition res_json :: "jsval \<Rightarrow> response comp" where
  "res_json v = ret \<lparr>status = 200, json = v\<rparr>"

text \<open>\<open>if (io) { ... }\<close>\<close>

definition if_io :: "socket list option \<Rightarrow> (socket list \<Rightarrow> unit comp) \<Rightarrow> unit comp" where
  "if_io io f = (case io of None \<Rightarrow> ret () | Some socks \<Rightarrow> f socks)"

text \<open>\<open>if (v) stmt\<close>\<close>

definition when_truthy :: "jsval \<Rightarrow> unit comp \<Rightarrow> unit comp" where
  "when_truthy v m = (if truthy v then m else ret ())"

text \<open>
  \<open>driverIds.forEach(f)\<close>: only an array has the method; on every other value the call
  throws a TypeError (the property read on \<open>undefined\<close> and \<open>null\<close>, the call of
  \<open>undefined\<close> otherwise).
\<close>

fun each :: "jsval list \<Rightarrow> (jsval \<Rightarrow> unit comp) \<Rightarrow> unit comp" where
  "each [] f = ret ()"
| "each (x # xs) f = seq (f x) (each xs f)"

fun forEach :: "jsval \<Rightarrow> (jsval \<Rightarrow> unit comp) \<Rightarrow> unit comp" where
  "forEach (JArr xs) f = each xs f"
| "forEach v f = ([], Inl TypeError)"

text \<open>
  \<open>v.length\<close>: throws on \<open>undefined\<close> and \<open>null\<close>; the length of an array or a string;
  an object's own property; \<open>undefined\<close> on a boolean or a number. The source uses the
  value in a log message only.
\<close>

fun js_length :: "jsval \<Rightarrow> js_error + jsval" where
  "js_length JUndefined = Inl TypeError"
| "js_length JNull = Inl TypeError"
| "js_length (JArr xs) = Inr (JNum (int (length xs)))"
| "js_length (JStr s) = Inr (JNum (int (length s)))"
| "js_length (JObj kvs) = Inr (get_prop (JObj kvs) ''length'')"
| "js_length v = Inr JUndefined"

text \<open>\<open>const { ... } = req.body\<close> throws when the body is \<open>undefined\<close> or \<open>null\<close>.\<close>

definition destructure :: "jsval \<Rightarrow> unit comp" where
  "destructure b = (if nullish b then ([], Inl TypeError) else ret ())"

subsection \<open>The ingestion endpoints\<close>

text \<open>
  Each handler takes \<open>io\<close>, the clock reading that \<open>new Date().toISOString()\<close> gives
  during the request, and \<open>req.body\<close>. An object literal is an association list in the
  order the source writes its properties.
\<close>

definition trip_request_payload :: "jsval \<Rightarrow> jsval \<Rightarrow> jsval \<Rightarrow> string \<Rightarrow> jsval" where
  "trip_request_payload tripId riderId tripData now =
     JObj [(''tripId'', tripId), (''riderId'', riderId), (''tripData'', tripData),
           (''timestamp'', JStr now)]"

definition send_to_drivers :: "socket list option \<Rightarrow> string \<Rightarrow> jsval \<Rightarrow> response comp" where
  "send_to_drivers io now b =
     seq (destructure b)
     (let tripId = get_prop b ''tripId''; riderId = get_prop b ''riderId'';
          driverIds = get_prop b ''driverIds''; tripData = get_prop b ''tripData'' in
      seq (if_io io (\<lambda>socks.
             forEach driverIds (\<lambda>driverId.
               io_to_emit socks [Lit ''user_'', Sub driverId] ''trip_request''
                 (trip_request_payload tripId riderId tripData now))))
     (seq (and_then ([], js_length driverIds) (\<lambda>n.
             log [Lit ''Trip '', Sub tripId, Lit '' sent to '', Sub n, Lit '' drivers'']))
          (res_json (JObj [(''success'', JBool True), (''message'', JStr ''Trip sent to drivers''),
                           (''tripId'', tripId)]))))"

definition trip_accept :: "socket list option \<Rightarrow> string \<Rightarrow> jsval \<Rightarrow> response comp" where
  "trip_accept io now b =
     seq (destructure b)
     (let tripId = get_prop b ''tripId''; driverId = get_prop b ''driverId'';
          riderId = get_prop b ''riderId'' in
      seq (if_io io (\<lambda>socks.
             seq (io_to_emit socks [Lit ''user_'', Sub riderId] ''trip_accepted''
                    (JObj [(''tripId'', tripId), (''driverId'', driverId),
                           (''timestamp'', JStr now)]))
                 (io_to_emit socks [Lit ''user_'', Sub driverId] ''trip_accepted_confirmation''
                    (JObj [(''tripId'', tripId), (''riderId'', riderId),
                           (''timestamp'', JStr now)]))))
     (seq (log [Lit ''Trip '', Sub tripId, Lit '' accepted by driver '', Sub driverId])
          (res_json (JObj [(''success'', JBool True), (''message'', JStr ''Trip accepted''),
                           (''tripId'', tripId), (''driverId'', driverId)]))))"

definition no_longer_available :: "socket list option \<Rightarrow> string \<Rightarrow> jsval \<Rightarrow> response comp" where
  "no_longer_available io now b =
     seq (destructure b)
     (let tripId = get_prop b ''tripId''; driverIds = get_prop b ''driverIds'';
          reason = get_prop b ''reason'' in
      seq (if_io io (\<lambda>socks.
             forEach driverIds (\<lambda>driverId.
               io_to_emit socks [Lit ''user_'', Sub driverId] ''trip_unavailable''
                 (JObj [(''tripId'', tripId), (''reason'', reason), (''timestamp'', JStr now)]))))
     (seq (log [Lit ''Trip '', Sub tripId, Lit '' no longer available: '', Sub reason])
          (res_json (JObj [(''success'', JBool True), (''message'', JStr ''Drivers notified''),
                           (''tripId'', tripId)]))))"

definition driver_arrived :: "socket list option \<Rightarrow> string \<Rightarrow> jsval \<Rightarrow> response comp" where
  "driver_arrived io now b =
     seq (destructure b)
     (let tripId = get_prop b ''tripId''; driverId = get_prop b ''driverId'';
          riderId = get_prop b ''riderId'' in
      seq (if_io io (\<lambda>socks.
             io_to_emit socks [Lit ''user_'', Sub riderId] ''driver_arrived''
               (JObj [(''tripId'', tripId), (''driverId'', driverId), (''timestamp'', JStr now)])))
     (seq (log [Lit ''Driver '', Sub driverId, Lit '' arrived for trip '', Sub tripId])
          (res_json (JObj [(''success'', JBool True),
                           (''message'', JStr ''Rider notified of arrival''),
                           (''tripId'', tripId)]))))"

definition trip_started :: "socket list option \<Rightarrow> string \<Rightarrow> jsval \<Rightarrow> response comp" where
  "trip_started io now b =
     seq (destructure b)
     (let tripId = get_prop b ''tripId''; driverId = get_prop b ''driverId'';
          riderId = get_prop b ''riderId'' in
      seq (if_io io (\<lambda>socks.
             seq (io_to_emit socks [Lit ''user_'', Sub riderId] ''trip_started''
                    (JObj [(''tripId'', tripId), (''driverId'', driverId),
                           (''timestamp'', JStr now)]))
                 (io_to_emit socks [Lit ''user_'', Sub driverId] ''trip_started''
                    (JObj [(''tripId'', tripId), (''riderId'', riderId),
                           (''timestamp'', JStr now)]))))
     (seq (log [Lit ''Trip '', Sub tripId, Lit '' started''])
          (res_json (JObj [(''success'', JBool True), (''message'', JStr ''Trip started''),
                           (''tripId'', tripId)]))))"

definition trip_completed :: "socket list option \<Rightarrow> string \<Rightarrow> jsval \<Rightarrow> response comp" where
  "trip_completed io now b =
     seq (destructure b)
     (let tripId = get_prop b ''tripId''; driverId = get_prop b ''driverId'';
          riderId = get_prop b ''riderId''; fare = get_prop b ''fare'' in
      seq (if_io io (\<lambda>socks.
             seq (io_to_emit socks [Lit ''user_'', Sub riderId] ''trip_completed''
                    (JObj [(''tripId'', tripId), (''driverId'', driverId), (''fare'', fare),
                           (''timestamp'', JStr now)]))
                 (io_to_emit socks [Lit ''user_'', Sub driverId] ''trip_completed''
                    (JObj [(''tripId'', tripId), (''riderId'', riderId), (''fare'', fare),
                           (''timestamp'', JStr now)]))))
     (seq (log [Lit ''Trip '', Sub tripId, Lit '' completed with fare '', Sub fare])
          (res_json (JObj [(''success'', JBool True), (''message'', JStr ''Trip completed''),
                           (''tripId'', tripId), (''fare'', fare)]))))"

definition trip_cancel :: "socket list option \<Rightarrow> string \<Rightarrow> jsval \<Rightarrow> response comp" where
  "trip_cancel io now b =
     seq (destructure b)
     (let tripId = get_prop b ''tripId''; cancelledBy = get_prop b ''cancelledBy'';
          reason = get_prop b ''reason''; driverId = get_prop b ''driverId'';
          riderId = get_prop b ''riderId'' in
      seq (if_io io (\<lambda>socks.
             let cancelData = JObj [(''tripId'', tripId), (''cancelledBy'', cancelledBy),
                                    (''reason'', reason), (''timestamp'', JStr now)] in
             seq (when_truthy driverId
                    (io_to_emit socks [Lit ''user_'', Sub driverId] ''trip_cancelled'' cancelData))
                 (when_truthy riderId
                    (io_to_emit socks [Lit ''user_'', Sub riderId] ''trip_cancelled'' cancelData))))
     (seq (log [Lit ''Trip '', Sub tripId, Lit '' cancelled by '', Sub cancelledBy, Lit '': '',
                Sub reason])
          (res_json (JObj [(''success'', JBool True), (''message'', JStr ''Trip cancelled''),
                           (''tripId'', tripId)]))))"

definition location_payload :: "jsval \<Rightarrow> jsval \<Rightarrow> jsval \<Rightarrow> jsval \<Rightarrow> string \<Rightarrow> jsval" where
  "location_payload driverId tripId latitude longitude now =
     JObj [(''driverId'', driverId), (''tripId'', tripId),
           (''location'', JObj [(''latitude'', latitude), (''longitude'', longitude)]),
           (''timestamp'', JStr now)]"

definition trip_driver_location :: "socket list option \<Rightarrow> string \<Rightarrow> jsval \<Rightarrow> response comp" where
  "trip_driver_location io now b =
     seq (destructure b)
     (let driverId = get_prop b ''driverId''; tripId = get_prop b ''tripId'';
          latitude = get_prop b ''latitude''; longitude = get_prop b ''longitude'' in
      seq (if_io io (\<lambda>socks.
             when_truthy tripId
               (io_to_emit socks [Lit ''trip_'', Sub tripId] ''driver_location''
                  (location_payload driverId tripId latitude longitude now))))
          (res_json (JObj [(''success'', JBool True), (''message'', JStr ''Location updated''),
                           (''driverId'', driverId)])))"

definition payment_update :: "socket list option \<Rightarrow> string \<Rightarrow> jsval \<Rightarrow> response comp" where
  "payment_update io now b =
     seq (destructure b)
     (let tripId = get_prop b ''tripId''; status = get_prop b ''status'';
          amount = get_prop b ''amount''; riderId = get_prop b ''riderId'';
          driverId = get_prop b ''driverId'' in
      seq (if_io io (\<lambda>socks.
             let paymentData = JObj [(''tripId'', tripId), (''status'', status),
                                     (''amount'', amount), (''timestamp'', JStr now)] in
             seq (when_truthy riderId
                    (io_to_emit socks [Lit ''user_'', Sub riderId] ''payment_update'' paymentData))
                 (when_truthy driverId
                    (io_to_emit socks [Lit ''user_'', Sub driverId] ''payment_update''
                       paymentData))))
     (seq (log [Lit ''Payment update for trip '', Sub tripId, Lit '': '', Sub status])
          (res_json (JObj [(''success'', JBool True), (''message'', JStr ''Payment update sent''),
                           (''tripId'', tripId)]))))"

definition emergency_alert :: "socket list option \<Rightarrow> string \<Rightarrow> jsval \<Rightarrow> response comp" where
  "emergency_alert io now b =
     seq (destructure b)
     (let tripId = get_prop b ''tripId''; userId = get_prop b ''userId'';
          type = get_prop b ''type''; location = get_prop b ''location'' in
      seq (if_io io (\<lambda>socks.
             io_to_emit socks [Lit ''trip_'', Sub tripId] ''emergency_alert''
               (JObj [(''tripId'', tripId), (''userId'', userId), (''type'', type),
                      (''location'', location), (''timestamp'', JStr now)])))
     (seq (log [Lit ''EMERGENCY ALERT - Trip '', Sub tripId, Lit '', User '', Sub userId,
                Lit '', Type: '', Sub type])
          (res_json (JObj [(''success'', JBool True), (''message'', JStr ''Emergency alert sent''),
                           (''tripId'', tripId)]))))"

definition trip_update :: "socket list option \<Rightarrow> string \<Rightarrow> jsval \<Rightarrow> response comp" where
  "trip_update io now b =
     seq (destructure b)
     (let tripId = get_prop b ''tripId''; status = get_prop b ''status'';
          driverId = get_prop b ''driverId''; riderId = get_prop b ''riderId'' in
      seq (if_io io (\<lambda>socks.
             let updateData = JObj [(''tripId'', tripId), (''status'', status),
                                    (''timestamp'', JStr now)] in
             seq (when_truthy riderId
                    (io_to_emit socks [Lit ''user_'', Sub riderId] ''trip_update'' updateData))
                 (when_truthy driverId
                    (io_to_emit socks [Lit ''user_'', Sub driverId] ''trip_update'' updateData))))
     (seq (log [Lit ''Trip '', Sub tripId, Lit '' status updated to '', Sub status])
          (res_json (JObj [(''success'', JBool True), (''message'', JStr ''Trip status updated''),
                           (''tripId'', tripId)]))))"

definition trip_request :: "socket list option \<Rightarrow> string \<Rightarrow> jsval \<Rightarrow> response comp" where
  "trip_request io now b =
     seq (destructure b)
     (let tripId = get_prop b ''tripId''; riderId = get_prop b ''riderId'';
          driverIds = get_prop b ''driverIds''; tripData = get_prop b ''tripData'' in
      seq (if_io io (\<lambda>socks.
             forEach driverIds (\<lambda>driverId.
               io_to_emit socks [Lit ''user_'', Sub driverId] ''trip_request''
                 (trip_request_payload tripId riderId tripData now))))
     (seq (and_then ([], js_length driverIds) (\<lambda>n.
             log [Lit ''Trip request '', Sub tripId, Lit '' sent to '', Sub n, Lit '' drivers'']))
          (res_json (JObj [(''success'', JBool True), (''message'', JStr ''Trip request sent''),
                           (''tripId'', tripId)]))))"

definition driver_location :: "socket list option \<Rightarrow> string \<Rightarrow> jsval \<Rightarrow> response comp" where
  "driver_location io now b =
     seq (destructure b)
     (let driverId = get_prop b ''driverId''; tripId = get_prop b ''tripId'';
          latitude = get_prop b ''latitude''; longitude = get_prop b ''longitude'' in
      seq (if_io io (\<lambda>socks.
             when_truthy tripId
               (io_to_emit socks [Lit ''trip_'', Sub tripId] ''driver_location''
                  (location_payload driverId tripId latitude longitude now))))
          (res_json (JObj [(''success'', JBool True),
                           (''message'', JStr ''Driver location updated''),
                           (''driverId'', driverId)])))"

text \<open>The POST routes of the ingestion surface, in the order of the source.\<close>

datatype endpoint =
    TripSendToDrivers
  | TripAccept
  | TripNoLongerAvailable
  | TripDriverArrived
  | TripStarted
  | TripCompleted
  | TripCancel
  | TripDriverLocation
  | PaymentUpdate
  | EmergencyAlert
  | TripUpdate
  | TripRequest
  | DriverLocation

fun handler :: "endpoint \<Rightarrow> socket list option \<Rightarrow> string \<Rightarrow> jsval \<Rightarrow> response comp" where
  "handler TripSendToDrivers = send_to_drivers"
| "handler TripAccept = trip_accept"
| "handler TripNoLongerAvailable = no_longer_available"
| "handler TripDriverArrived = driver_arrived"
| "handler TripStarted = trip_started"
| "handler TripCompleted = trip_completed"
| "handler TripCancel = trip_cancel"
| "handler TripDriverLocation = trip_driver_location"
| "handler PaymentUpdate = payment_update"
| "handler EmergencyAlert = emergency_alert"
| "handler TripUpdate = trip_update"
| "handler TripRequest = trip_request"
| "handler DriverLocation = driver_location"

text \<open>
  A POST to a route: \<open>validateApiKey\<close> runs first; an exception thrown by the handler
  reaches the error-handling middleware, which answers 500. The messages emitted before
  a throw have been sent.
\<close>

definition error_middleware :: "js_error \<Rightarrow> response" where
  "error_middleware err = \<lparr>status = 500, json = JObj [(''error'', JStr ''Internal server error'')]\<rparr>"

definition post :: "env \<Rightarrow> socket list option \<Rightarrow> string \<Rightarrow> endpoint \<Rightarrow> request
    \<Rightarrow> delivery list \<times> response" where
  "post e io now ep req =
     (case validateApiKey e req of
        Respond r \<Rightarrow> ([], r)
      | Next \<Rightarrow>
          (case handler ep io now (body req) of
             (tr, Inl err) \<Rightarrow> (tr, error_middleware err)
           | (tr, Inr r) \<Rightarrow> (tr, r)))"

subsection \<open>Socket event handlers\<close>

text \<open>
  The handlers registered on a connected socket. A handler's run is the exception it
  threw (nothing catches it; the socket is then as before) or the socket afterwards
  with the messages \<open>socket.emit\<close> sent to this client.
\<close>

type_synonym emitted = "string \<times> jsval"

text \<open>A fresh connection: Socket.IO puts the socket in the room named by its own id.\<close>

definition connection :: "string \<Rightarrow> string \<Rightarrow> socket \<times> emitted list" where
  "connection socket_id now =
     (\<lparr>sid = socket_id, rooms = {socket_id}, userId = JUndefined, authenticated = JUndefined,
       userType = JUndefined, userEmail = JUndefined\<rparr>,
      [(''connected'', JObj [(''socketId'', JStr socket_id), (''timestamp'', JStr now)])])"

text \<open>
  \<open>authenticate\<close>: with a truthy token the fields are assigned and the confirmation is
  emitted before the log message is evaluated inside the \<open>try\<close>; if that evaluation
  throws, the \<open>catch\<close> emits \<open>authentication_error\<close> and the assignments stay.
\<close>

definition on_authenticate :: "socket \<Rightarrow> jsval \<Rightarrow> js_error + socket \<times> emitted list" where
  "on_authenticate sock data =
     (if nullish data then Inl TypeError
      else
        let token = get_prop data ''token''; uid = get_prop data ''userId'' in
        if truthy token then
          (let sock' = sock\<lparr>userId := uid, authenticated := JBool True\<rparr>;
               ok = (''authenticated'', JObj [(''success'', JBool True), (''userId'', uid)])
           in case template [Lit ''User '', Sub uid, Lit '' authenticated with socket '',
                             Sub (JStr (sid sock))] of
                Inr m \<Rightarrow> Inr (sock', [ok])
              | Inl err \<Rightarrow>
                  Inr (sock', [ok, (''authentication_error'',
                                    JObj [(''error'', JStr ''Invalid token'')])]))
        else
          Inr (sock\<lparr>authenticated := JBool True\<rparr>,
               [(''authenticated'', JObj [(''success'', JBool True)])]))"







section \<open>Example inputs\<close>

text \<open>Concrete configurations, sockets and requests at which the properties are evaluated.\<close>

definition unconfigured :: env where
  "unconfigured = \<lparr>env_LARAVEL_API_KEY = None, env_JWT_SECRET = None\<rparr>"

definition configured :: env where
  "configured = \<lparr>env_LARAVEL_API_KEY = Some ''k1'', env_JWT_SECRET = Some ''s3cret''\<rparr>"

text \<open>A request that presents the key of \<open>configured\<close>.\<close>

definition keyed :: "jsval \<Rightarrow> request" where
  "keyed b = \<lparr>x_api_key = Some ''k1'', body = b\<rparr>"

definition accept_body :: jsval where
  "accept_body =
     JObj [(''tripId'', JStr ''t1''), (''driverId'', JStr ''d1''), (''riderId'', JStr ''r1'')]"


text \<open>
  Four connected sockets: one in the rider's room, one in the driver's room, one in the
  trip's room and one in a room named \<open>monitoring\<close>.
\<close>

definition example_sockets :: "socket list" where
  "example_sockets =
     [\<lparr>sid = ''sR'', rooms = {''sR'', ''user_r1''}, userId = JStr ''r1'',
       authenticated = JUndefined, userType = JUndefined, userEmail = JUndefined\<rparr>,
      \<lparr>sid = ''sD'', rooms = {''sD'', ''user_d1''}, userId = JStr ''d1'',
       authenticated = JUndefined, userType = JUndefined, userEmail = JUndefined\<rparr>,
      \<lparr>sid = ''sT'', rooms = {''sT'', ''trip_t1''}, userId = JUndefined,
       authenticated = JUndefined, userType = JUndefined, userEmail = JUndefined\<rparr>,
      \<lparr>sid = ''sM'', rooms = {''sM'', ''monitoring''}, userId = JUndefined,
       authenticated = JUndefined, userType = JUndefined, userEmail = JUndefined\<rparr>]"


definition fresh_socket :: socket where
  "fresh_socket = fst (connection ''s1'' ''T0'')"





section \<open>Properties\<close>

subsection \<open>Projections of a run\<close>














lemma LARAVEL_API_KEY_nonempty: "LARAVEL_API_KEY e \<noteq> []"
  by (simp add: LARAVEL_API_KEY_def split: option.splits)


lemma replace_first_prefix: "pat \<noteq> [] \<Longrightarrow> replace_first pat rep (pat @ s) = rep @ s"
  by (cases pat) simp_all

subsection \<open>Backend credential check\<close>

text \<open>
  C5, as the code has it. \<open>validateBackendAuth\<close> checks in a fixed order. A request that
  presents no key (no header, or an empty one) is answered 401 \<open>API key required\<close>,
  whether or not a key is configured. A request that presents a key is answered 500
  \<open>Server configuration error\<close>, logged as an error, when no expected key is configured
  (unset or empty); 401 \<open>Invalid API key\<close>, logged as a warning, when the configured key
  differs from the presented one; and is passed on by \<open>next()\<close> when the keys are equal.
  Each answer is returned without calling \<open>next()\<close>.
\<close>

theorem validateBackendAuth_precedence:
  "(str_falsy (x_api_key req) \<longrightarrow>
      validateBackendAuth e req =
        ([], Respond \<lparr>status = 401, json = JObj [(''error'', JStr ''API key required'')]\<rparr>)) \<and>
   (\<not> str_falsy (x_api_key req) \<and> str_falsy (env_LARAVEL_API_KEY e) \<longrightarrow>
      validateBackendAuth e req =
        ([LogError ''LARAVEL_API_KEY not configured''],
         Respond \<lparr>status = 500, json = JObj [(''error'', JStr ''Server configuration error'')]\<rparr>)) \<and>
   (\<not> str_falsy (x_api_key req) \<and> \<not> str_falsy (env_LARAVEL_API_KEY e) \<and>
    x_api_key req \<noteq> env_LARAVEL_API_KEY e \<longrightarrow>
      validateBackendAuth e req =
        ([LogWarn ''Invalid API key attempt''],
         Respond \<lparr>status = 401, json = JObj [(''error'', JStr ''Invalid API key'')]\<rparr>)) \<and>
   (\<not> str_falsy (x_api_key req) \<and> x_api_key req = env_LARAVEL_API_KEY e \<longrightarrow>
      validateBackendAuth e req = ([], Next))"
  by (auto simp add: validateBackendAuth_def Let_def)

text \<open>
  The four cases at concrete requests: an empty key against a configured server, a key
  against an unconfigured server, a wrong key and the right key.
\<close>

theorem validateBackendAuth_precedence_witness:
  "str_falsy (x_api_key \<lparr>x_api_key = Some [], body = JObj []\<rparr>) \<and>
   validateBackendAuth configured \<lparr>x_api_key = Some [], body = JObj []\<rparr> =
     ([], Respond \<lparr>status = 401, json = JObj [(''error'', JStr ''API key required'')]\<rparr>) \<and>
   \<not> str_falsy (x_api_key \<lparr>x_api_key = Some ''k1'', body = JObj []\<rparr>) \<and>
   str_falsy (env_LARAVEL_API_KEY unconfigured) \<and>
   validateBackendAuth unconfigured \<lparr>x_api_key = Some ''k1'', body = JObj []\<rparr> =
     ([LogError ''LARAVEL_API_KEY not configured''],
      Respond \<lparr>status = 500, json = JObj [(''error'', JStr ''Server configuration error'')]\<rparr>) \<and>
   \<not> str_falsy (env_LARAVEL_API_KEY configured) \<and>
   x_api_key \<lparr>x_api_key = Some ''k2'', body = JObj []\<rparr> \<noteq> env_LARAVEL_API_KEY configured \<and>
   validateBackendAuth configured \<lparr>x_api_key = Some ''k2'', body = JObj []\<rparr> =
     ([LogWarn ''Invalid API key attempt''],
      Respond \<lparr>status = 401, json = JObj [(''error'', JStr ''Invalid API key'')]\<rparr>) \<and>
   validateBackendAuth configured \<lparr>x_api_key = Some ''k1'', body = JObj []\<rparr> = ([], Next)"
  using validateBackendAuth_precedence [of "\<lparr>x_api_key = Some [], body = JObj []\<rparr>" configured]
    validateBackendAuth_precedence [of "\<lparr>x_api_key = Some ''k1'', body = JObj []\<rparr>" unconfigured]
    validateBackendAuth_precedence [of "\<lparr>x_api_key = Some ''k2'', body = JObj []\<rparr>" configured]
    validateBackendAuth_precedence [of "\<lparr>x_api_key = Some ''k1'', body = JObj []\<rparr>" configured]
  by (simp add: str_falsy_def configured_def unconfigured_def)

text \<open>
  C5 as stated fails where no expected key is configured and the request presents no
  key: the answer is 401 \<open>API key required\<close>, not the 500 of a misconfigured server.
\<close>

theorem misconfigured_keyless_request_is_401:
  "str_falsy (env_LARAVEL_API_KEY unconfigured) \<and>
   validateBackendAuth unconfigured \<lparr>x_api_key = None, body = JObj []\<rparr> =
     ([], Respond \<lparr>status = 401, json = JObj [(''error'', JStr ''API key required'')]\<rparr>)"
  by (simp add: validateBackendAuth_def str_falsy_def unconfigured_def)

subsection \<open>The API-key middleware of app.js\<close>

text \<open>
  C9. A request is taken after \<open>express.json()\<close> has parsed its body. On every
  ingestion route, a request whose \<open>x-api-key\<close> header is absent or differs from the
  configured key is answered 401 \<open>Invalid API key\<close>, with the same answer in both
  cases and before any handler runs (nothing is emitted). The configured key is never
  empty, because of the hardcoded default, and \<open>validateApiKey\<close> has no other answer
  than that 401: it has no 500 branch.
\<close>

theorem validateApiKey_single_401:
  "(x_api_key req = None \<or> x_api_key req \<noteq> Some (LARAVEL_API_KEY e) \<longrightarrow>
      post e io now ep req =
        ([], \<lparr>status = 401, json = JObj [(''error'', JStr ''Invalid API key'')]\<rparr>)) \<and>
   LARAVEL_API_KEY e \<noteq> [] \<and>
   (validateApiKey e req = Next \<or>
    validateApiKey e req =
      Respond \<lparr>status = 401, json = JObj [(''error'', JStr ''Invalid API key'')]\<rparr>)"
  by (auto simp: post_def validateApiKey_def Let_def LARAVEL_API_KEY_nonempty)

text \<open>
  A request without the header and a request with a wrong key, against a server with
  no \<open>LARAVEL_API_KEY\<close> in its environment: both get the same 401.
\<close>

theorem validateApiKey_single_401_witness:
  "x_api_key \<lparr>x_api_key = None, body = accept_body\<rparr> = None \<and>
   post unconfigured (Some example_sockets) ''T0'' TripAccept
     \<lparr>x_api_key = None, body = accept_body\<rparr> =
     ([], \<lparr>status = 401, json = JObj [(''error'', JStr ''Invalid API key'')]\<rparr>) \<and>
   x_api_key (keyed accept_body) \<noteq> Some (LARAVEL_API_KEY unconfigured) \<and>
   post unconfigured (Some example_sockets) ''T0'' TripAccept (keyed accept_body) =
     ([], \<lparr>status = 401, json = JObj [(''error'', JStr ''Invalid API key'')]\<rparr>)"
  using validateApiKey_single_401 [of "\<lparr>x_api_key = None, body = accept_body\<rparr>" unconfigured
      "Some example_sockets" "''T0''" TripAccept]
    validateApiKey_single_401 [of "keyed accept_body" unconfigured
      "Some example_sockets" "''T0''" TripAccept]
  by (simp add: keyed_def unconfigured_def LARAVEL_API_KEY_def)

subsection \<open>The answers of the ingestion endpoints\<close>






subsection \<open>Routing\<close>







subsection \<open>Binding a socket to an identity\<close>

text \<open>
  The handshake middleware \<open>validateSocketAuth\<close> does reject: without a token it fails
  with \<open>Authentication token required\<close>, and with a token that \<open>jwt.verify\<close> rejects
  (a secret being configured) it fails with \<open>Invalid token\<close>; in both cases the
  socket is left as it was.
\<close>

lemma validateSocketAuth_rejects:
  "(\<not> truthy (handshake_token hs) \<longrightarrow>
      validateSocketAuth jwt_verify e hs sock =
        (sock, [], NextErr ''Authentication token required'')) \<and>
   (truthy (handshake_token hs) \<and> env_JWT_SECRET e = Some k \<and> k \<noteq> [] \<and>
    jwt_verify (handshake_token hs) k = JwtErr m \<longrightarrow>
      validateSocketAuth jwt_verify e hs sock =
        (sock, [LogWarn ''Invalid JWT token''], NextErr ''Invalid token''))"
  by (auto simp: validateSocketAuth_def Let_def)

text \<open>
  The \<open>authenticate\<close> handler of app.js never fails on a message that is an object:
  it marks the socket authenticated and confirms, with or without a token.
\<close>

lemma on_authenticate_always_accepts:
  "\<not> nullish data \<Longrightarrow>
     \<exists>sock' p rest.
        on_authenticate sock data = Inr (sock', (''authenticated'', p) # rest) \<and>
        authenticated sock' = JBool True \<and> get_prop p ''success'' = JBool True"
  by (auto simp: on_authenticate_def Let_def split: sum.splits)

text \<open>
  C1 fails on the \<open>authenticate\<close> handler of app.js. A message without a token marks a
  fresh socket authenticated and is confirmed with \<open>success: true\<close>; a message whose
  token is not a JWT at all binds the user id the message names. No error is emitted in
  either case.
\<close>

theorem authenticate_accepts_missing_and_unverified_tokens:
  "on_authenticate fresh_socket (JObj []) =
     Inr (fresh_socket\<lparr>authenticated := JBool True\<rparr>,
          [(''authenticated'', JObj [(''success'', JBool True)])]) \<and>
   on_authenticate fresh_socket
     (JObj [(''token'', JStr ''not-a-jwt''), (''userId'', JStr ''bob'')]) =
     Inr (fresh_socket\<lparr>userId := JStr ''bob'', authenticated := JBool True\<rparr>,
          [(''authenticated'', JObj [(''success'', JBool True), (''userId'', JStr ''bob'')])])"
  by (simp add: on_authenticate_def nullish_def Let_def fresh_socket_def connection_def)

text \<open>
  C8. For every token string, \<open>validateSocketAuth\<close> gives the same result (the same
  socket fields, the same log, the same error or success) when the token is supplied
  in the handshake's \<open>auth.token\<close> field with no \<open>Authorization\<close> header, and when it is
  supplied as the header \<open>Authorization: Bearer <token>\<close> with no \<open>auth.token\<close> field.
\<close>

theorem bearer_header_equals_auth_field:
  "validateSocketAuth jwt_verify e \<lparr>auth_token = JStr t, authorization = None\<rparr> sock =
   validateSocketAuth jwt_verify e
     \<lparr>auth_token = JUndefined, authorization = Some (''Bearer '' @ t)\<rparr> sock"
proof -
  have r: "replace_first ''Bearer '' [] (''Bearer '' @ t) = t"
    using replace_first_prefix [of "''Bearer ''" "[]" t] by simp
  show ?thesis
  proof (cases "t = []")
    case True
    then show ?thesis
      using r by (simp add: validateSocketAuth_def handshake_token_def js_or_def)
  next
    case False
    then show ?thesis
      using r by (simp add: validateSocketAuth_def handshake_token_def js_or_def)
  qed
qed

subsection \<open>Joining rooms\<close>






subsection \<open>The identity fields of a socket\<close>






end
